theory Spec2Isabelle
  imports Main "HOL-Library.Word"
begin

unbundle bit_operations_syntax

section \<open>The Mitsubishi i-MiEV vehicle module (vehicle\_mitsubishi.c)\<close>

text \<open>
  The module is C for the PIC18 (MPLAB C18): \<open>unsigned char\<close> is 8 bits, \<open>int\<close> and
  \<open>unsigned int\<close> are 16 bits, \<open>unsigned long\<close> is 32 bits. Every variable is a word of
  its width, so \<open>+\<close>, \<open>-\<close> and \<open>*\<close> wrap as the C arithmetic does; comparisons of words
  are unsigned. Arithmetic follows ISO C (operands narrower than \<open>int\<close> are promoted to
  the 16-bit \<open>int\<close>). Each entry point returns a constant (\<open>FALSE\<close> for the two tickers,
  \<open>TRUE\<close> for the frame handlers and the initialisation); the model returns the state
  the call leaves behind.
\<close>

subsection \<open>Data\<close>

text \<open>The notification sink of the framework: each call of \<open>net_req_notification\<close> is
  recorded, in order, in the list \<open>net_notifications\<close>.\<close>

datatype notify = NET_NOTIFY_STAT | NET_NOTIFY_CHARGE | NET_NOTIFY_ENV

text \<open>Integer division by zero is undefined in C; the model makes it a fault.\<close>

datatype fault = DivisionByZero

text \<open>The four hooks of the framework that the module registers.\<close>

datatype handler = Mitsubishi_poll0 | Mitsubishi_poll1 | Mitsubishi_ticker1 | Mitsubishi_ticker10

text \<open>The registers of the CAN controller written by the initialisation.\<close>

record can_regs =
  CANCON :: "8 word"
  RXB0CON :: "8 word"
  RXM0SIDL :: "8 word"
  RXM0SIDH :: "8 word"
  RXF0SIDL :: "8 word"
  RXF0SIDH :: "8 word"
  RXF1SIDL :: "8 word"
  RXF1SIDH :: "8 word"
  RXB1CON :: "8 word"
  RXM1SIDL :: "8 word"
  RXM1SIDH :: "8 word"
  RXF2SIDL :: "8 word"
  RXF2SIDH :: "8 word"
  RXF3SIDL :: "8 word"
  RXF3SIDH :: "8 word"
  RXF4SIDL :: "8 word"
  RXF4SIDH :: "8 word"
  RXF5SIDL :: "8 word"
  RXF5SIDH :: "8 word"
  BRGCON1 :: "8 word"
  BRGCON2 :: "8 word"
  BRGCON3 :: "8 word"
  CIOCON :: "8 word"

text \<open>
  The state: the module's own variables (\<open>mi_...\<close>, declared at the top of
  vehicle\_mitsubishi.c with the types given there) and the globals of the framework that
  the module reads and writes (\<open>car_...\<close>, \<open>can_mileskm\<close>, \<open>net_fnbits\<close>,
  \<open>sys_features\<close>, the hooks). \<open>mi_batttemps\<close> is the array of 24 signed bytes; a
  well-formed state has \<open>length (mi_batttemps s) = 24\<close>.
\<close>

text \<open>
  Modelled from the spec: the declarations of the framework globals (ovms.h) are not part
  of the module's file. Their widths are those of the original header, which the spec
  describes as 8-bit timers and accumulators: \<open>car_linevoltage\<close>, \<open>car_estrange\<close>,
  \<open>car_idealrange\<close> and \<open>car_chargeduration\<close> are \<open>unsigned int\<close>; \<open>car_time\<close>,
  \<open>car_parktime\<close> and \<open>car_odometer\<close> are \<open>unsigned long\<close>; all other \<open>car_...\<close>
  variables, among them \<open>car_SOC\<close>, \<open>car_chargecurrent\<close> and \<open>car_chargekwh\<close>, are
  one byte.
\<close>

record vehicle =
  mi_charge_timer :: "8 word"
  mi_charge_wm :: "32 word"
  mi_candata_timer :: "8 word"
  mi_stale_charge :: "8 word"
  mi_quick_charge :: "8 word"
  mi_qc_counter :: "8 word"
  mi_estrange :: "16 word"
  mi_batttemps :: "8 word list"
  mi_last_good_SOC :: "8 word"
  mi_last_good_range :: "8 word"
  car_type :: "8 word list"
  car_stale_timer :: "8 word"
  car_stale_temps :: "8 word"
  car_SOCalertlimit :: "8 word"
  car_time :: "32 word"
  car_parktime :: "32 word"
  car_doors1 :: "8 word"
  car_doors3 :: "8 word"
  car_doors5 :: "8 word"
  car_SOC :: "8 word"
  car_speed :: "8 word"
  car_odometer :: "32 word"
  car_estrange :: "16 word"
  car_idealrange :: "16 word"
  car_linevoltage :: "16 word"
  car_chargecurrent :: "8 word"
  car_chargemode :: "8 word"
  car_chargestate :: "8 word"
  car_chargesubstate :: "8 word"
  car_chargelimit :: "8 word"
  car_chargeduration :: "16 word"
  car_chargekwh :: "8 word"
  car_tbattery :: "8 word"
  car_tpem :: "8 word"
  car_tmotor :: "8 word"
  can_mileskm :: char
  sys_features_CANWRITE :: "8 word"
  net_fnbits :: "8 word"
  net_notifications :: "notify list"
  can_hw :: can_regs
  vehicle_fn_poll0 :: "handler option"
  vehicle_fn_poll1 :: "handler option"
  vehicle_fn_ticker1 :: "handler option"
  vehicle_fn_ticker10 :: "handler option"

text \<open>A received CAN frame: the globals \<open>can_id\<close> and \<open>can_databuffer\<close> (8 bytes) that the
  framework fills before it calls a poll function.\<close>

record can_frame =
  can_id :: "16 word"
  can_databuffer :: "8 word list"

text \<open>
  Modelled from the spec: the bit-field views \<open>car_doors1bits\<close>, \<open>car_doors3bits\<close> and
  \<open>car_doors5bits\<close> and the \<open>NET_FN_...\<close> masks are declared in the framework headers.
  The module's own comments give \<open>0x04\<close> for the charge port, \<open>0x08\<close> for the pilot
  signal and \<open>0x10\<close> for charging in \<open>car_doors1\<close>, and \<open>0x01\<close> for "car awake" in
  \<open>car_doors3\<close>; the other masks are those of the original headers.
\<close>

definition ChargePort :: "8 word" where "ChargePort = 0x04"
definition CoolingPump :: "8 word" where "CoolingPump = 0x02"
definition Charging12V :: "8 word" where "Charging12V = 0x10"
definition NET_FN_INTERNALGPS :: "8 word" where "NET_FN_INTERNALGPS = 0x01"
definition NET_FN_12VMONITOR :: "8 word" where "NET_FN_12VMONITOR = 0x02"

definition net_req_notification :: "notify \<Rightarrow> vehicle \<Rightarrow> vehicle" where
  "net_req_notification n s = s\<lparr>net_notifications := net_notifications s @ [n]\<rparr>"

subsection \<open>The one-second ticker\<close>

text \<open>Lines 99 to 123: the cooling pump flag, the two stale timers and \<open>car_time++\<close>.\<close>

definition ticker1_stale :: "vehicle \<Rightarrow> vehicle" where
  "ticker1_stale s =
    (let s1 = s\<lparr>car_doors3 := (if car_stale_temps s \<le> 1 then car_doors3 s AND NOT CoolingPump
                                 else car_doors3 s OR CoolingPump)\<rparr>;
         s2 = (if mi_stale_charge s1 > 0
               then (let s' = s1\<lparr>mi_stale_charge := mi_stale_charge s1 - 1\<rparr>
                     in if mi_stale_charge s' = 0
                        then s'\<lparr>mi_quick_charge := 0, car_linevoltage := 0, car_chargecurrent := 0\<rparr>
                        else s')
               else s1);
         s3 = (if mi_candata_timer s2 > 0
               then (let s' = s2\<lparr>mi_candata_timer := mi_candata_timer s2 - 1\<rparr>
                     in if mi_candata_timer s' = 0
                        then s'\<lparr>car_doors3 := car_doors3 s' AND NOT 0x01\<rparr>
                        else s'\<lparr>car_doors3 := car_doors3 s' OR 0x01\<rparr>)
               else s2)
     in s3\<lparr>car_time := car_time s3 + 1\<rparr>)"

text \<open>Lines 133 to 177: the estimated range. \<open>MiFromKm\<close> is the unit conversion helper of
  the framework (not part of the module's file), taken as a parameter. The quotient of
  line 154 is computed on 16-bit unsigned values; a zero divisor is the fault.\<close>

definition ticker1_range :: "(32 word \<Rightarrow> 32 word) \<Rightarrow> vehicle \<Rightarrow> fault + vehicle" where
  "ticker1_range MiFromKm s =
    (if mi_quick_charge s = 1
     then (if car_SOC s \<le> 10
           then Inr (s\<lparr>car_estrange := 0\<rparr>)
           else (let s1 = (if car_SOC s < 20
                           then s\<lparr>mi_last_good_SOC := 20, mi_last_good_range := 8\<rparr>
                           else s);
                     divisor = (ucast (mi_last_good_SOC s1) - 10 :: 16 word)
                 in if divisor = 0 then Inl DivisionByZero
                    else Inr (s1\<lparr>car_estrange :=
                           (ucast (mi_last_good_range s1) * (ucast (car_SOC s1) - 10)) div divisor\<rparr>)))
     else (let s1 = (if mi_estrange s \<noteq> 255
                     then (if can_mileskm s = CHR ''K''
                           then s\<lparr>car_estrange := ucast (MiFromKm (ucast (mi_estrange s)))\<rparr>
                           else s\<lparr>car_estrange := mi_estrange s\<rparr>)
                     else s)
           in Inr (if car_SOC s1 \<ge> 20 \<and> car_estrange s1 \<ge> 5
                   then s1\<lparr>mi_last_good_SOC := car_SOC s1,
                           mi_last_good_range := ucast (car_estrange s1)\<rparr>
                   else s1)))"

text \<open>Lines 179 to 186: the ideal range.\<close>

definition ticker1_idealrange :: "vehicle \<Rightarrow> vehicle" where
  "ticker1_idealrange s =
    (if car_SOC s \<le> 10 then s\<lparr>car_idealrange := 0\<rparr>
     else s\<lparr>car_idealrange := ((ucast (car_SOC s) - 10) * 104) div 100\<rparr>)"

text \<open>Lines 229 to 241: one minute of charging has passed. The product of line 234 is
  an \<open>unsigned char\<close> times an \<open>unsigned int\<close>, hence a 16-bit \<open>unsigned int\<close>, which is
  then widened to the 32-bit accumulator.\<close>

definition charge_minute :: "vehicle \<Rightarrow> vehicle" where
  "charge_minute s =
    (let s1 = s\<lparr>mi_charge_timer := 0, car_chargeduration := car_chargeduration s + 1\<rparr>
     in if mi_quick_charge s1 = 0
        then (let s2 = s1\<lparr>mi_charge_wm := mi_charge_wm s1 +
                            ucast (ucast (car_chargecurrent s1) * car_linevoltage s1 :: 16 word)\<rparr>
              in if mi_charge_wm s2 \<ge> 60000
                 then s2\<lparr>car_chargekwh := car_chargekwh s2 + 1,
                          mi_charge_wm := mi_charge_wm s2 - 60000\<rparr>
                 else s2)
        else s1)"

text \<open>Lines 200 to 290: the charge state determination.\<close>

definition ticker1_charge :: "vehicle \<Rightarrow> vehicle" where
  "ticker1_charge s =
    (if mi_quick_charge s = 1 \<or> (car_chargecurrent s \<noteq> 0 \<and> car_linevoltage s > 100)
     then (let s1 = s\<lparr>car_doors5 := car_doors5 s OR Charging12V\<rparr>
           in if car_doors1 s1 AND 0x08 = 0
              then net_req_notification NET_NOTIFY_STAT
                     (s1\<lparr>car_doors1 := car_doors1 s1 OR 0x1c,
                         car_chargemode := 0,
                         car_chargestate := 1,
                         car_chargesubstate := 3,
                         car_chargelimit := (if mi_quick_charge s1 = 1 then 125 else 16),
                         car_chargeduration := 0,
                         car_chargekwh := 0,
                         mi_charge_timer := 0,
                         mi_charge_wm := 0\<rparr>)
              else (let s2 = s1\<lparr>car_doors1 := car_doors1 s1 OR ChargePort,
                                mi_charge_timer := mi_charge_timer s1 + 1\<rparr>
                    in if mi_charge_timer s2 \<ge> 60 then charge_minute s2 else s2))
     else if car_chargecurrent s = 0 \<and> car_linevoltage s > 100
     then (let s1 = (if car_doors1 s AND 0x08 \<noteq> 0 \<and> car_SOC s = 100
                     then (let a = s\<lparr>car_doors1 := (car_doors1 s AND NOT 0x18) OR ChargePort,
                                     car_chargemode := 0,
                                     car_chargestate := 4,
                                     car_chargesubstate := 3\<rparr>;
                               b = net_req_notification NET_NOTIFY_CHARGE a;
                               c = b\<lparr>mi_charge_timer := 0, mi_charge_wm := 0\<rparr>
                           in net_req_notification NET_NOTIFY_STAT c)
                     else s)
           in s1\<lparr>car_doors5 := car_doors5 s1 AND NOT Charging12V\<rparr>)
     else if car_chargecurrent s = 0 \<and> car_linevoltage s < 100 \<and> mi_quick_charge s = 0
     then (let s1 = (if car_doors1 s AND 0x08 \<noteq> 0
                     then (let a = s\<lparr>car_doors1 := (car_doors1 s AND NOT 0x18) OR ChargePort,
                                     car_chargemode := 0\<rparr>;
                               b = (if car_SOC a < 95
                                    then net_req_notification NET_NOTIFY_CHARGE
                                           (a\<lparr>car_chargestate := 21, car_chargesubstate := 14\<rparr>)
                                    else net_req_notification NET_NOTIFY_CHARGE
                                           (a\<lparr>car_chargestate := 4, car_chargesubstate := 3\<rparr>));
                               c = b\<lparr>mi_charge_timer := 0, mi_charge_wm := 0\<rparr>
                           in net_req_notification NET_NOTIFY_STAT c)
                     else s)
           in s1\<lparr>car_doors5 := car_doors5 s1 AND NOT Charging12V,
                  car_doors1 := car_doors1 s1 AND NOT ChargePort\<rparr>)
     else s)"

text \<open>\<open>vehicle_mitsubishi_ticker1\<close>: the four parts in the order of the source.\<close>

definition vehicle_mitsubishi_ticker1 :: "(32 word \<Rightarrow> 32 word) \<Rightarrow> vehicle \<Rightarrow> fault + vehicle" where
  "vehicle_mitsubishi_ticker1 MiFromKm s =
    (case ticker1_range MiFromKm (ticker1_stale s) of
       Inl e \<Rightarrow> Inl e
     | Inr s' \<Rightarrow> Inr (ticker1_charge (ticker1_idealrange s')))"

text \<open>The scheduler calling the ticker \<open>n\<close> times in a row, no frame in between.\<close>

fun ticks :: "(32 word \<Rightarrow> 32 word) \<Rightarrow> nat \<Rightarrow> vehicle \<Rightarrow> fault + vehicle" where
  "ticks MiFromKm 0 s = Inr s"
| "ticks MiFromKm (Suc n) s =
    (case vehicle_mitsubishi_ticker1 MiFromKm s of
       Inl e \<Rightarrow> Inl e
     | Inr s' \<Rightarrow> ticks MiFromKm n s')"

subsection \<open>The ten-second ticker\<close>



subsection \<open>The frame handlers\<close>

definition vehicle_mitsubishi_poll0 :: "can_frame \<Rightarrow> vehicle \<Rightarrow> vehicle" where
  "vehicle_mitsubishi_poll0 f s =
    (let d = can_databuffer f;
         s0 = s\<lparr>mi_candata_timer := 60\<rparr>
     in if can_id f = 0x346
        then (let s1 = s0\<lparr>mi_estrange := ucast (d ! 7)\<rparr>
              in if mi_estrange s1 = 255 \<and> car_speed s1 < 5
                 then (let s2 = (if mi_qc_counter s1 > 0
                                 then s1\<lparr>mi_qc_counter := mi_qc_counter s1 - 1\<rparr> else s1)
                       in if mi_qc_counter s2 = 0
                          then s2\<lparr>mi_quick_charge := 1, mi_stale_charge := 30\<rparr>
                          else s2)
                 else (if mi_qc_counter s1 < 3
                       then s1\<lparr>mi_qc_counter := mi_qc_counter s1 + 1\<rparr>
                       else s1\<lparr>mi_quick_charge := 0\<rparr>))
        else if can_id f = 0x374
        then s0\<lparr>car_SOC := ucast (((ucast (d ! 1) :: 16 word) - 10) div 2)\<rparr>
        else if can_id f = 0x389
        then s0\<lparr>car_linevoltage := ucast (d ! 1),
                car_chargecurrent := ucast ((ucast (d ! 6) :: 16 word) div 10),
                mi_stale_charge := 30\<rparr>
        else s0)"

definition vehicle_mitsubishi_poll1 :: "(32 word \<Rightarrow> 32 word) \<Rightarrow> can_frame \<Rightarrow> vehicle \<Rightarrow> vehicle" where
  "vehicle_mitsubishi_poll1 MiFromKm f s =
    (let d = can_databuffer f;
         s0 = s\<lparr>mi_candata_timer := 60\<rparr>
     in if can_id f = 0x285
        then (if d ! 6 = 0x0C
              then (let s1 = s0\<lparr>car_doors1 := (car_doors1 s0 OR 0x40) AND NOT 0x80\<rparr>
                    in if car_parktime s1 = 0
                       then net_req_notification NET_NOTIFY_ENV
                              (s1\<lparr>car_parktime := car_time s1 - 1\<rparr>)
                       else s1)
              else if d ! 6 = 0x0E
              then (let s1 = s0\<lparr>car_doors1 := (car_doors1 s0 AND NOT 0x40) OR 0x80\<rparr>
                    in if car_parktime s1 \<noteq> 0
                       then net_req_notification NET_NOTIFY_ENV (s1\<lparr>car_parktime := 0\<rparr>)
                       else s1)
              else s0)
        else if can_id f = 0x286
        then s0\<lparr>car_tpem := d ! 3 - 40, car_stale_temps := 60\<rparr>
        else if can_id f = 0x298
        then s0\<lparr>car_tmotor := d ! 3 - 40, car_stale_temps := 60\<rparr>
        else if can_id f = 0x412
        then (let s1 = (if d ! 1 > 200
                        then s0\<lparr>car_speed := ucast ((ucast (d ! 1) :: 16 word) - 255)\<rparr>
                        else s0\<lparr>car_speed := d ! 1\<rparr>);
                  odo = (push_bit 16 (ucast (d ! 2)) + push_bit 8 (ucast (d ! 3)) + ucast (d ! 4)) * 10
              in if can_mileskm s1 = CHR ''K''
                 then s1\<lparr>car_odometer := MiFromKm odo\<rparr>
                 else s1\<lparr>car_odometer := odo\<rparr>)
        else if can_id f = 0x6e1
        then (let idx = unat (d ! 0)
              in if idx \<ge> 1 \<and> idx \<le> 12
                 then (let idx = 2 * idx - 2
                       in s0\<lparr>mi_batttemps := (mi_batttemps s0)[idx := d ! 2 - 50, idx + 1 := d ! 3 - 50],
                              car_stale_temps := 60\<rparr>)
                 else s0)
        else s0)"

subsection \<open>Initialisation\<close>

text \<open>Line 508 waits until the CAN controller reports configuration mode. The controller
  is the environment: \<open>opmode2 n\<close> is what the \<open>n\<close>-th read of \<open>CANSTATbits.OPMODE2\<close>
  returns. The wait returns the number of the read that ended it, and does not return
  (\<open>None\<close>) when no read ever does.\<close>

partial_function (option) wait_configuration :: "(nat \<Rightarrow> bool) \<Rightarrow> nat \<Rightarrow> nat option" where
  "wait_configuration opmode2 n =
    (if opmode2 n then Some n else wait_configuration opmode2 (Suc n))"

declare wait_configuration.simps [code]

definition can_configuration :: "8 word \<Rightarrow> can_regs \<Rightarrow> can_regs" where
  "can_configuration canwrite r =
     r\<lparr>RXB0CON := 0x00,
       RXM0SIDL := 0x00, RXM0SIDH := 0xE0,
       RXF0SIDL := 0x00, RXF0SIDH := 0x68,
       RXF1SIDL := 0x20, RXF1SIDH := 0x71,
       RXB1CON := 0x00,
       RXM1SIDL := 0x80, RXM1SIDH := 0xFF,
       RXF2SIDL := 0x80, RXF2SIDH := 0x50,
       RXF3SIDL := 0x40, RXF3SIDH := 0x82,
       RXF4SIDL := 0x20, RXF4SIDH := 0xDC,
       RXF5SIDL := 0x00, RXF5SIDH := 0x53,
       BRGCON1 := 0x01, BRGCON2 := 0xD2, BRGCON3 := 0x02,
       CIOCON := 0x20,
       CANCON := (if canwrite > 0 then 0x00 else 0x60)\<rparr>"

definition vehicle_mitsubishi_initialise :: "(nat \<Rightarrow> bool) \<Rightarrow> vehicle \<Rightarrow> vehicle option" where
  "vehicle_mitsubishi_initialise opmode2 s =
    (let s1 = s\<lparr>car_type := (car_type s)[0 := 0x4D, 1 := 0x49, 2 := 0, 3 := 0, 4 := 0],
                car_stale_timer := - 1,
                car_time := 0,
                mi_candata_timer := 0,
                car_SOCalertlimit := 10,
                mi_stale_charge := 0,
                mi_quick_charge := 0,
                mi_qc_counter := 3,
                mi_estrange := 0\<rparr>;
         s2 = s1\<lparr>mi_batttemps := fold (\<lambda>i b. b[i := 0]) [0..<24] (mi_batttemps s1)\<rparr>;
         s3 = s2\<lparr>can_hw := (can_hw s2)\<lparr>CANCON := 0x90\<rparr>\<rparr>
     in case wait_configuration opmode2 0 of
          None \<Rightarrow> None
        | Some n \<Rightarrow>
            Some (s3\<lparr>can_hw := can_configuration (sys_features_CANWRITE s3) (can_hw s3),
                     vehicle_fn_poll0 := Some Mitsubishi_poll0,
                     vehicle_fn_poll1 := Some Mitsubishi_poll1,
                     vehicle_fn_ticker1 := Some Mitsubishi_ticker1,
                     vehicle_fn_ticker10 := Some Mitsubishi_ticker10,
                     net_fnbits := (net_fnbits s3 OR NET_FN_INTERNALGPS) OR NET_FN_12VMONITOR\<rparr>))"

subsection \<open>Runs of the entry points\<close>

text \<open>\<open>n\<close> seconds in which the frame \<open>f\<close> arrives before each tick: with the frame
  \<open>0x389\<close> the charge stale timer is set back to 30 every second.\<close>

fun fed_ticks :: "(32 word \<Rightarrow> 32 word) \<Rightarrow> can_frame \<Rightarrow> nat \<Rightarrow> vehicle \<Rightarrow> fault + vehicle" where
  "fed_ticks MiFromKm f 0 s = Inr s"
| "fed_ticks MiFromKm f (Suc n) s =
    (case vehicle_mitsubishi_ticker1 MiFromKm (vehicle_mitsubishi_poll0 f s) of
       Inl e \<Rightarrow> Inl e
     | Inr s' \<Rightarrow> fed_ticks MiFromKm f n s')"

text \<open>A run of per-minute accumulation steps: for each sample, the charge current and the
  line voltage that the step finds in the car, then the step itself (\<open>charge_minute\<close>).
  \<open>watt_minutes\<close> is the sum over the minutes of current times voltage.\<close>

definition charge_minutes :: "(8 word \<times> 16 word) list \<Rightarrow> vehicle \<Rightarrow> vehicle" where
  "charge_minutes samples s =
     fold (\<lambda>(c, v) s. charge_minute (s\<lparr>car_chargecurrent := c, car_linevoltage := v\<rparr>)) samples s"

definition watt_minutes :: "(8 word \<times> 16 word) list \<Rightarrow> nat" where
  "watt_minutes samples = sum_list (map (\<lambda>(c, v). unat c * unat v) samples)"

subsection \<open>Observations of the quick-charge filter\<close>




subsection \<open>Concrete cars, frames and controllers\<close>

text \<open>All memory zero and distances in miles: the state from which the concrete cars below
  are made.\<close>

definition zero_regs :: can_regs where
  "zero_regs = \<lparr>CANCON = 0, RXB0CON = 0, RXM0SIDL = 0, RXM0SIDH = 0, RXF0SIDL = 0,
     RXF0SIDH = 0, RXF1SIDL = 0, RXF1SIDH = 0, RXB1CON = 0, RXM1SIDL = 0, RXM1SIDH = 0,
     RXF2SIDL = 0, RXF2SIDH = 0, RXF3SIDL = 0, RXF3SIDH = 0, RXF4SIDL = 0, RXF4SIDH = 0,
     RXF5SIDL = 0, RXF5SIDH = 0, BRGCON1 = 0, BRGCON2 = 0, BRGCON3 = 0, CIOCON = 0\<rparr>"

definition zero_vehicle :: vehicle where
  "zero_vehicle = \<lparr>mi_charge_timer = 0, mi_charge_wm = 0, mi_candata_timer = 0,
     mi_stale_charge = 0, mi_quick_charge = 0, mi_qc_counter = 0, mi_estrange = 0,
     mi_batttemps = replicate 24 0, mi_last_good_SOC = 0, mi_last_good_range = 0,
     car_type = replicate 5 0, car_stale_timer = 0, car_stale_temps = 0,
     car_SOCalertlimit = 0, car_time = 0, car_parktime = 0, car_doors1 = 0, car_doors3 = 0,
     car_doors5 = 0, car_SOC = 0, car_speed = 0, car_odometer = 0, car_estrange = 0,
     car_idealrange = 0, car_linevoltage = 0, car_chargecurrent = 0, car_chargemode = 0,
     car_chargestate = 0, car_chargesubstate = 0, car_chargelimit = 0,
     car_chargeduration = 0, car_chargekwh = 0, car_tbattery = 0, car_tpem = 0,
     car_tmotor = 0, can_mileskm = CHR ''M'', sys_features_CANWRITE = 0, net_fnbits = 0,
     net_notifications = [], can_hw = zero_regs, vehicle_fn_poll0 = None,
     vehicle_fn_poll1 = None, vehicle_fn_ticker1 = None, vehicle_fn_ticker10 = None\<rparr>"

text \<open>A stand-in for the framework's conversion from kilometres to miles in the concrete
  runs (none of them converts).\<close>

definition km_to_mi :: "32 word \<Rightarrow> 32 word" where
  "km_to_mi km = (km * 5) div 8"

text \<open>A car on the charger: charge port open, pilot signal on and charging (bits \<open>0x1C\<close>
  of \<open>car_doors1\<close>), charge state 1, both stale timers fresh, the SOC at 80.\<close>

definition charging_vehicle :: vehicle where
  "charging_vehicle = zero_vehicle\<lparr>car_doors1 := 0x1C, car_doors5 := 0x10,
     car_chargestate := 1, car_chargesubstate := 3, car_chargelimit := 16, car_SOC := 80,
     mi_stale_charge := 30, mi_candata_timer := 60, mi_qc_counter := 3,
     mi_charge_timer := 7, mi_charge_wm := 500\<rparr>"

text \<open>A quick-charging car whose last good anchor is an SOC of 80 with a range of 100.\<close>

definition quick_charging_vehicle :: vehicle where
  "quick_charging_vehicle = charging_vehicle\<lparr>mi_quick_charge := 1, mi_qc_counter := 0,
     car_chargelimit := 125, mi_estrange := 255, mi_last_good_SOC := 80,
     mi_last_good_range := 100\<rparr>"

text \<open>A car that has just been plugged in: 150 V on the line, 16 A of charge current, an
  SOC of 50, the charge signal fresh, the charge not yet noticed.\<close>

definition plugged_vehicle :: vehicle where
  "plugged_vehicle = zero_vehicle\<lparr>car_linevoltage := 150, car_chargecurrent := 16,
     car_SOC := 50, mi_stale_charge := 30, mi_candata_timer := 60, mi_qc_counter := 3\<rparr>"


definition charge_frame :: "8 word \<Rightarrow> 8 word \<Rightarrow> can_frame" where
  "charge_frame v c = \<lparr>can_id = 0x389, can_databuffer = [0, v, 0, 0, 0, 0, c, 0]\<rparr>"

definition temp_frame :: "8 word \<Rightarrow> 8 word \<Rightarrow> 8 word \<Rightarrow> can_frame" where
  "temp_frame bank t1 t2 = \<lparr>can_id = 0x6e1, can_databuffer = [bank, 0, t1, t2, 0, 0, 0, 0]\<rparr>"

text \<open>A CAN controller that reports configuration mode from its \<open>k\<close>-th read on.\<close>

definition ready_after :: "nat \<Rightarrow> nat \<Rightarrow> bool" where
  "ready_after k n \<longleftrightarrow> k \<le> n"

section \<open>Properties\<close>

subsection \<open>Words\<close>

lemma unat_ucast_8_16: "unat (ucast (b :: 8 word) :: 16 word) = unat b"
  by (simp add: unsigned_ucast_eq take_bit_nat_eq_self less_trans[OF unsigned_less[of b, simplified]])


subsection \<open>The quick-charge filter\<close>














subsection \<open>What each part of the ticker leaves alone\<close>

lemma ticker1_stale_keeps:
  "car_doors1 (ticker1_stale s) = car_doors1 s"
  "car_doors5 (ticker1_stale s) = car_doors5 s"
  "car_SOC (ticker1_stale s) = car_SOC s"
  "car_chargestate (ticker1_stale s) = car_chargestate s"
  "car_chargesubstate (ticker1_stale s) = car_chargesubstate s"
  "car_chargemode (ticker1_stale s) = car_chargemode s"
  "car_chargelimit (ticker1_stale s) = car_chargelimit s"
  "car_chargeduration (ticker1_stale s) = car_chargeduration s"
  "car_chargekwh (ticker1_stale s) = car_chargekwh s"
  "mi_charge_timer (ticker1_stale s) = mi_charge_timer s"
  "mi_charge_wm (ticker1_stale s) = mi_charge_wm s"
  "net_notifications (ticker1_stale s) = net_notifications s"
  "mi_last_good_SOC (ticker1_stale s) = mi_last_good_SOC s"
  "mi_last_good_range (ticker1_stale s) = mi_last_good_range s"
  "car_estrange (ticker1_stale s) = car_estrange s"
  "mi_estrange (ticker1_stale s) = mi_estrange s"
  "can_mileskm (ticker1_stale s) = can_mileskm s"
  by (simp_all add: ticker1_stale_def Let_def)

lemma ticker1_stale_timers:
  "unat (mi_stale_charge (ticker1_stale s)) = unat (mi_stale_charge s) - 1"
  "unat (mi_candata_timer (ticker1_stale s)) = unat (mi_candata_timer s) - 1"
  by (simp_all add: ticker1_stale_def Let_def word_gt_0 unat_minus_one)

lemma ticker1_stale_charge_signal:
  "mi_stale_charge s = 1 \<Longrightarrow> mi_quick_charge (ticker1_stale s) = 0"
  "mi_stale_charge s = 1 \<Longrightarrow> car_linevoltage (ticker1_stale s) = 0"
  "mi_stale_charge s = 1 \<Longrightarrow> car_chargecurrent (ticker1_stale s) = 0"
  "mi_stale_charge s \<noteq> 1 \<Longrightarrow> mi_quick_charge (ticker1_stale s) = mi_quick_charge s"
  "mi_stale_charge s \<noteq> 1 \<Longrightarrow> car_linevoltage (ticker1_stale s) = car_linevoltage s"
  "mi_stale_charge s \<noteq> 1 \<Longrightarrow> car_chargecurrent (ticker1_stale s) = car_chargecurrent s"
  by (simp_all add: ticker1_stale_def Let_def)

lemma awake_bit:
  "(d AND NOT CoolingPump) AND 1 = d AND 1"
  "(d OR CoolingPump) AND 1 = d AND 1"
  "(d AND NOT 1) AND 1 = 0"
  "(d OR 1) AND 1 = 1"
  for d :: "8 word"
  by (simp_all add: CoolingPump_def and.assoc word_ao_dist)

lemma asleep_bit: "(d AND - 2) AND 1 = 0" for d :: "8 word"
  by (simp add: and.assoc)

lemma ticker1_range_keeps:
  assumes "ticker1_range MiFromKm s = Inr s'"
  shows "car_doors1 s' = car_doors1 s"
  "car_doors3 s' = car_doors3 s"
  "car_doors5 s' = car_doors5 s"
  "car_SOC s' = car_SOC s"
  "car_chargestate s' = car_chargestate s"
  "car_chargesubstate s' = car_chargesubstate s"
  "car_chargemode s' = car_chargemode s"
  "car_chargelimit s' = car_chargelimit s"
  "car_chargeduration s' = car_chargeduration s"
  "car_chargekwh s' = car_chargekwh s"
  "mi_charge_timer s' = mi_charge_timer s"
  "mi_charge_wm s' = mi_charge_wm s"
  "net_notifications s' = net_notifications s"
  "mi_quick_charge s' = mi_quick_charge s"
  "car_linevoltage s' = car_linevoltage s"
  "car_chargecurrent s' = car_chargecurrent s"
  "mi_stale_charge s' = mi_stale_charge s"
  "mi_candata_timer s' = mi_candata_timer s"
  using assms
  by (auto simp add: ticker1_range_def Let_def split: if_splits)

lemma ticker1_range_not_qc:
  "mi_quick_charge s \<noteq> 1 \<Longrightarrow> \<exists>s'. ticker1_range MiFromKm s = Inr s'"
  by (simp add: ticker1_range_def Let_def)

lemma ucast_eq_10: "((ucast (a :: 8 word) :: 16 word) = 10) = (a = 10)"
  by (simp add: word_unat_eq_iff unat_ucast_8_16)

lemma ticker1_range_no_fault:
  "mi_last_good_SOC s \<noteq> 10 \<Longrightarrow>
   \<exists>s'. ticker1_range MiFromKm s = Inr s' \<and> mi_last_good_SOC s' \<noteq> 10"
  by (auto simp add: ticker1_range_def Let_def ucast_eq_10)

lemma ticker1_idealrange_keeps:
  "car_doors1 (ticker1_idealrange s) = car_doors1 s"
  "car_doors3 (ticker1_idealrange s) = car_doors3 s"
  "car_doors5 (ticker1_idealrange s) = car_doors5 s"
  "car_SOC (ticker1_idealrange s) = car_SOC s"
  "car_chargestate (ticker1_idealrange s) = car_chargestate s"
  "car_chargesubstate (ticker1_idealrange s) = car_chargesubstate s"
  "car_chargemode (ticker1_idealrange s) = car_chargemode s"
  "car_chargelimit (ticker1_idealrange s) = car_chargelimit s"
  "car_chargeduration (ticker1_idealrange s) = car_chargeduration s"
  "car_chargekwh (ticker1_idealrange s) = car_chargekwh s"
  "mi_charge_timer (ticker1_idealrange s) = mi_charge_timer s"
  "mi_charge_wm (ticker1_idealrange s) = mi_charge_wm s"
  "net_notifications (ticker1_idealrange s) = net_notifications s"
  "mi_quick_charge (ticker1_idealrange s) = mi_quick_charge s"
  "car_linevoltage (ticker1_idealrange s) = car_linevoltage s"
  "car_chargecurrent (ticker1_idealrange s) = car_chargecurrent s"
  "mi_stale_charge (ticker1_idealrange s) = mi_stale_charge s"
  "mi_candata_timer (ticker1_idealrange s) = mi_candata_timer s"
  "mi_last_good_SOC (ticker1_idealrange s) = mi_last_good_SOC s"
  "mi_last_good_range (ticker1_idealrange s) = mi_last_good_range s"
  "car_estrange (ticker1_idealrange s) = car_estrange s"
  by (simp_all add: ticker1_idealrange_def)

lemma charge_minute_keeps:
  "car_doors3 (charge_minute s) = car_doors3 s"
  "mi_quick_charge (charge_minute s) = mi_quick_charge s"
  "car_linevoltage (charge_minute s) = car_linevoltage s"
  "car_chargecurrent (charge_minute s) = car_chargecurrent s"
  "mi_stale_charge (charge_minute s) = mi_stale_charge s"
  "mi_candata_timer (charge_minute s) = mi_candata_timer s"
  "mi_last_good_SOC (charge_minute s) = mi_last_good_SOC s"
  "mi_last_good_range (charge_minute s) = mi_last_good_range s"
  "car_estrange (charge_minute s) = car_estrange s"
  "car_SOC (charge_minute s) = car_SOC s"
  "car_doors1 (charge_minute s) = car_doors1 s"
  "car_chargestate (charge_minute s) = car_chargestate s"
  "net_notifications (charge_minute s) = net_notifications s"
  by (simp_all add: charge_minute_def Let_def)

lemma ticker1_charge_keeps:
  "car_doors3 (ticker1_charge s) = car_doors3 s"
  "mi_quick_charge (ticker1_charge s) = mi_quick_charge s"
  "car_linevoltage (ticker1_charge s) = car_linevoltage s"
  "car_chargecurrent (ticker1_charge s) = car_chargecurrent s"
  "mi_stale_charge (ticker1_charge s) = mi_stale_charge s"
  "mi_candata_timer (ticker1_charge s) = mi_candata_timer s"
  "mi_last_good_SOC (ticker1_charge s) = mi_last_good_SOC s"
  "mi_last_good_range (ticker1_charge s) = mi_last_good_range s"
  "car_estrange (ticker1_charge s) = car_estrange s"
  "car_SOC (ticker1_charge s) = car_SOC s"
  by (simp_all add: ticker1_charge_def Let_def net_req_notification_def charge_minute_keeps)

lemma ticker1_charge_pause:
  assumes "car_chargecurrent s = 0" "car_linevoltage s > 100" "mi_quick_charge s \<noteq> 1"
    "car_SOC s \<noteq> 100"
  shows "ticker1_charge s = s\<lparr>car_doors5 := car_doors5 s AND NOT Charging12V\<rparr>"
  using assms by (simp add: ticker1_charge_def)

subsection \<open>The stale timers\<close>

lemma tick_timers:
  assumes "mi_last_good_SOC s \<noteq> 10"
  shows "\<exists>s'. vehicle_mitsubishi_ticker1 MiFromKm s = Inr s' \<and> mi_last_good_SOC s' \<noteq> 10 \<and>
     unat (mi_stale_charge s') = unat (mi_stale_charge s) - 1 \<and>
     unat (mi_candata_timer s') = unat (mi_candata_timer s) - 1 \<and>
     (if mi_stale_charge s = 1
      then mi_quick_charge s' = 0 \<and> car_linevoltage s' = 0 \<and> car_chargecurrent s' = 0
      else mi_quick_charge s' = mi_quick_charge s \<and> car_linevoltage s' = car_linevoltage s \<and>
           car_chargecurrent s' = car_chargecurrent s) \<and>
     (if mi_candata_timer s = 1 then car_doors3 s' AND 1 = 0
      else if mi_candata_timer s = 0 then car_doors3 s' AND 1 = car_doors3 s AND 1
      else car_doors3 s' AND 1 = 1)"
proof -
  from assms have "mi_last_good_SOC (ticker1_stale s) \<noteq> 10"
    by (simp add: ticker1_stale_keeps)
  from ticker1_range_no_fault [OF this]
  obtain s2 where r: "ticker1_range MiFromKm (ticker1_stale s) = Inr s2"
    and a: "mi_last_good_SOC s2 \<noteq> 10" by blast
  note k2 = ticker1_range_keeps [OF r]
  have d3: "if mi_candata_timer s = 1 then car_doors3 (ticker1_stale s) AND 1 = 0
      else if mi_candata_timer s = 0 then car_doors3 (ticker1_stale s) AND 1 = car_doors3 s AND 1
      else car_doors3 (ticker1_stale s) AND 1 = 1"
    by (simp add: ticker1_stale_def Let_def awake_bit asleep_bit word_gt_0)
  show ?thesis
    using a d3
    by (simp add: vehicle_mitsubishi_ticker1_def r ticker1_charge_keeps ticker1_idealrange_keeps k2
        ticker1_stale_timers ticker1_stale_charge_signal)
qed

text \<open>
  Claim C5. Take any run of \<open>n\<close> ticks with no frame in between, from a state whose
  anchor does not make line 154 divide by zero. The run returns; each of the two timers
  has gone down by one per tick and has stopped at 0 (\<open>-\<close> on \<open>nat\<close> stops at 0). The
  next tick again takes one off each timer that is positive, and the timers' actions are
  bound to the step from 1 to 0: that tick clears the quick-charge flag, the line voltage
  and the charge current when the charge timer is at 1 and leaves the three alone
  otherwise (so also on every later tick, when the timer is 0); it marks the car asleep
  (bit \<open>0x01\<close> of \<open>car_doors3\<close> cleared) when the bus timer is at 1, marks it awake when
  the timer is above 1, and leaves the bit alone when the timer is 0.
\<close>

theorem stale_timers_run:
  assumes "mi_last_good_SOC s \<noteq> 10"
  shows "\<exists>s' s''. ticks MiFromKm n s = Inr s' \<and>
     unat (mi_stale_charge s') = unat (mi_stale_charge s) - n \<and>
     unat (mi_candata_timer s') = unat (mi_candata_timer s) - n \<and>
     vehicle_mitsubishi_ticker1 MiFromKm s' = Inr s'' \<and>
     unat (mi_stale_charge s'') = unat (mi_stale_charge s') - 1 \<and>
     unat (mi_candata_timer s'') = unat (mi_candata_timer s') - 1 \<and>
     (if mi_stale_charge s' = 1
      then mi_quick_charge s'' = 0 \<and> car_linevoltage s'' = 0 \<and> car_chargecurrent s'' = 0
      else mi_quick_charge s'' = mi_quick_charge s' \<and> car_linevoltage s'' = car_linevoltage s' \<and>
           car_chargecurrent s'' = car_chargecurrent s') \<and>
     (if mi_candata_timer s' = 1 then car_doors3 s'' AND 1 = 0
      else if mi_candata_timer s' = 0 then car_doors3 s'' AND 1 = car_doors3 s' AND 1
      else car_doors3 s'' AND 1 = 1)"
proof -
  have run: "\<exists>s'. ticks MiFromKm n s = Inr s' \<and> mi_last_good_SOC s' \<noteq> 10 \<and>
     unat (mi_stale_charge s') = unat (mi_stale_charge s) - n \<and>
     unat (mi_candata_timer s') = unat (mi_candata_timer s) - n"
    using assms
  proof (induction n arbitrary: s)
    case 0
    then show ?case by simp
  next
    case (Suc n)
    from tick_timers [OF Suc.prems, of MiFromKm]
    obtain s1 where t: "vehicle_mitsubishi_ticker1 MiFromKm s = Inr s1"
      and a: "mi_last_good_SOC s1 \<noteq> 10"
      and c: "unat (mi_stale_charge s1) = unat (mi_stale_charge s) - 1"
             "unat (mi_candata_timer s1) = unat (mi_candata_timer s) - 1"
      by blast
    from Suc.IH [OF a] t c show ?case by simp
  qed
  then obtain s' where s': "ticks MiFromKm n s = Inr s'" "mi_last_good_SOC s' \<noteq> 10"
     "unat (mi_stale_charge s') = unat (mi_stale_charge s) - n"
     "unat (mi_candata_timer s') = unat (mi_candata_timer s) - n" by blast
  from tick_timers [OF s'(2), of MiFromKm] s'(1,3,4) show ?thesis
    by auto
qed

theorem stale_timers_run_witness:
  "mi_last_good_SOC (charging_vehicle\<lparr>mi_stale_charge := 3, mi_candata_timer := 3\<rparr>) \<noteq> 10 \<and>
   (\<exists>s' s''. ticks km_to_mi 2 (charging_vehicle\<lparr>mi_stale_charge := 3, mi_candata_timer := 3\<rparr>) = Inr s' \<and>
      unat (mi_stale_charge s') = 1 \<and> unat (mi_candata_timer s') = 1 \<and>
      vehicle_mitsubishi_ticker1 km_to_mi s' = Inr s'' \<and>
      unat (mi_stale_charge s'') = unat (mi_stale_charge s') - 1 \<and>
      unat (mi_candata_timer s'') = unat (mi_candata_timer s') - 1 \<and>
      (if mi_stale_charge s' = 1
       then mi_quick_charge s'' = 0 \<and> car_linevoltage s'' = 0 \<and> car_chargecurrent s'' = 0
       else mi_quick_charge s'' = mi_quick_charge s' \<and> car_linevoltage s'' = car_linevoltage s' \<and>
            car_chargecurrent s'' = car_chargecurrent s') \<and>
      (if mi_candata_timer s' = 1 then car_doors3 s'' AND 1 = 0
       else if mi_candata_timer s' = 0 then car_doors3 s'' AND 1 = car_doors3 s' AND 1
       else car_doors3 s'' AND 1 = 1))"
  using stale_timers_run [of "charging_vehicle\<lparr>mi_stale_charge := 3, mi_candata_timer := 3\<rparr>"
      km_to_mi 2]
  by (simp add: charging_vehicle_def zero_vehicle_def)

subsection \<open>The charge state machine\<close>

text \<open>The end of a charge as the state machine decides it: below 100 V with no current
  and no quick charge (lines 265 to 290), and above 100 V with no current at an SOC of
  100 (lines 248 to 263).\<close>

lemma charge_bits:
  "(((d AND - 25) OR ChargePort) AND NOT ChargePort) AND 24 = 0"
  "(((d AND - 25) OR ChargePort) AND NOT ChargePort) AND ChargePort = 0"
  "((d AND - 25) OR ChargePort) AND 24 = 0"
  "((d AND - 25) OR ChargePort) AND ChargePort = ChargePort"
  for d :: "8 word"
  by (simp_all add: ChargePort_def word_ao_dist and.assoc)

lemma ticker1_charge_stopped:
  assumes "car_chargecurrent s = 0" "car_linevoltage s < 100" "mi_quick_charge s = 0"
    "car_doors1 s AND 0x08 \<noteq> 0"
  shows "car_chargestate (ticker1_charge s) = (if car_SOC s < 95 then 21 else 4)"
    and "car_chargesubstate (ticker1_charge s) = (if car_SOC s < 95 then 14 else 3)"
    and "car_doors1 (ticker1_charge s) AND 0x18 = 0"
    and "car_doors1 (ticker1_charge s) AND ChargePort = 0"
    and "mi_charge_timer (ticker1_charge s) = 0" and "mi_charge_wm (ticker1_charge s) = 0"
    and "net_notifications (ticker1_charge s) =
           net_notifications s @ [NET_NOTIFY_CHARGE, NET_NOTIFY_STAT]"
proof -
  from assms(2) have "\<not> 100 < car_linevoltage s" by simp
  with assms show
    "car_chargestate (ticker1_charge s) = (if car_SOC s < 95 then 21 else 4)"
    "car_chargesubstate (ticker1_charge s) = (if car_SOC s < 95 then 14 else 3)"
    "car_doors1 (ticker1_charge s) AND 0x18 = 0"
    "car_doors1 (ticker1_charge s) AND ChargePort = 0"
    "mi_charge_timer (ticker1_charge s) = 0" "mi_charge_wm (ticker1_charge s) = 0"
    "net_notifications (ticker1_charge s) =
           net_notifications s @ [NET_NOTIFY_CHARGE, NET_NOTIFY_STAT]"
    by (simp_all add: ticker1_charge_def net_req_notification_def Let_def charge_bits)
qed

lemma ticker1_charge_full:
  assumes "car_chargecurrent s = 0" "car_linevoltage s > 100" "mi_quick_charge s \<noteq> 1"
    "car_doors1 s AND 0x08 \<noteq> 0" "car_SOC s = 100"
  shows "car_chargestate (ticker1_charge s) = 4"
    and "car_chargesubstate (ticker1_charge s) = 3"
    and "car_doors1 (ticker1_charge s) AND 0x18 = 0"
    and "car_doors1 (ticker1_charge s) AND ChargePort = ChargePort"
    and "mi_charge_timer (ticker1_charge s) = 0" and "mi_charge_wm (ticker1_charge s) = 0"
    and "net_notifications (ticker1_charge s) =
           net_notifications s @ [NET_NOTIFY_CHARGE, NET_NOTIFY_STAT]"
  using assms
  by (simp_all add: ticker1_charge_def net_req_notification_def Let_def charge_bits)

text \<open>
  Claim C1 fails on the code at a line voltage of exactly 100: line 248 asks for a voltage
  above 100 and line 265 for one below 100, so a car that was charging, with no current,
  no quick charge and 100 V on the line, takes neither branch. The tick moves the clock,
  the two stale timers, the awake bit and the ideal range and nothing else: the charge
  state stays 1 (charging), the charge and pilot bits stay set, the accumulators keep
  their values, nothing is notified.
\<close>

theorem charge_stop_at_100_volts:
  "vehicle_mitsubishi_ticker1 km_to_mi
     (charging_vehicle\<lparr>car_linevoltage := 100, car_chargecurrent := 0\<rparr>) =
   Inr (charging_vehicle\<lparr>car_linevoltage := 100, car_chargecurrent := 0,
          mi_stale_charge := 29, mi_candata_timer := 59, car_doors3 := 1,
          car_time := 1, car_idealrange := 72\<rparr>)"
  by (simp add: vehicle_mitsubishi_ticker1_def ticker1_stale_def ticker1_range_def
      ticker1_idealrange_def ticker1_charge_def CoolingPump_def Let_def
      charging_vehicle_def zero_vehicle_def)

text \<open>
  Claim C9, as the code has it. The tick runs the stale timers before the charge state
  machine, and a charge stale timer that the tick finds at 1 expires in it: the line
  voltage, the current and the quick-charge flag are zeroed before the state machine
  reads them. On a tick that finds the charge stale timer at any other value, with no
  current, more than 100 V and no quick charge, in a car that was charging with an SOC
  below 100, the tick returns and the charge state, the substate, the duration, the kWh,
  the watt-minute remainder, the per-second charge timer, the whole of \<open>car_doors1\<close> and
  the charge mode are as before, nothing is notified, and \<open>car_doors5\<close> has lost the
  12V-charging bit and nothing else.
\<close>

theorem balancing_pause_keeps_charge_state:
  assumes "car_chargecurrent s = 0"
    and "car_linevoltage s > 100"
    and "mi_quick_charge s \<noteq> 1"
    and "car_doors1 s AND 0x08 \<noteq> 0"
    and "car_SOC s < 100"
    and "mi_stale_charge s \<noteq> 1"
  shows "\<exists>s'. vehicle_mitsubishi_ticker1 MiFromKm s = Inr s' \<and>
      car_chargestate s' = car_chargestate s \<and> car_chargesubstate s' = car_chargesubstate s \<and>
      car_chargeduration s' = car_chargeduration s \<and> car_chargekwh s' = car_chargekwh s \<and>
      mi_charge_wm s' = mi_charge_wm s \<and> mi_charge_timer s' = mi_charge_timer s \<and>
      car_doors1 s' = car_doors1 s \<and> car_chargemode s' = car_chargemode s \<and>
      net_notifications s' = net_notifications s \<and>
      car_doors5 s' = car_doors5 s AND NOT Charging12V"
proof -
  note signal = ticker1_stale_charge_signal(4-6) [OF assms(6)]
  from assms(3) have "mi_quick_charge (ticker1_stale s) \<noteq> 1" by (simp add: signal)
  from ticker1_range_not_qc [OF this]
  obtain s2 where r: "ticker1_range MiFromKm (ticker1_stale s) = Inr s2" ..
  note k2 = ticker1_range_keeps [OF r]
  let ?s3 = "ticker1_idealrange s2"
  from assms(5) have soc: "car_SOC s \<noteq> 100" by auto
  have "ticker1_charge ?s3 = ?s3\<lparr>car_doors5 := car_doors5 ?s3 AND NOT Charging12V\<rparr>"
    using assms(1-4) soc
    by (intro ticker1_charge_pause)
      (simp_all add: ticker1_idealrange_keeps k2 signal ticker1_stale_keeps)
  then show ?thesis
    by (simp add: vehicle_mitsubishi_ticker1_def r ticker1_idealrange_keeps k2 ticker1_stale_keeps)
qed

theorem balancing_pause_keeps_charge_state_witness:
  "car_chargecurrent (charging_vehicle\<lparr>car_linevoltage := 150\<rparr>) = 0 \<and>
   car_linevoltage (charging_vehicle\<lparr>car_linevoltage := 150\<rparr>) > 100 \<and>
   mi_quick_charge (charging_vehicle\<lparr>car_linevoltage := 150\<rparr>) \<noteq> 1 \<and>
   car_doors1 (charging_vehicle\<lparr>car_linevoltage := 150\<rparr>) AND 0x08 \<noteq> 0 \<and>
   car_SOC (charging_vehicle\<lparr>car_linevoltage := 150\<rparr>) < 100 \<and>
   mi_stale_charge (charging_vehicle\<lparr>car_linevoltage := 150\<rparr>) \<noteq> 1 \<and>
   (\<exists>s'. vehicle_mitsubishi_ticker1 km_to_mi (charging_vehicle\<lparr>car_linevoltage := 150\<rparr>) = Inr s' \<and>
      car_chargestate s' = 1 \<and> car_chargesubstate s' = 3 \<and> car_chargeduration s' = 0 \<and>
      car_chargekwh s' = 0 \<and> mi_charge_wm s' = 500 \<and> mi_charge_timer s' = 7 \<and>
      car_doors1 s' = 0x1C \<and> car_chargemode s' = 0 \<and> net_notifications s' = [] \<and>
      car_doors5 s' = 0)"
  using balancing_pause_keeps_charge_state [of "charging_vehicle\<lparr>car_linevoltage := 150\<rparr>" km_to_mi]
  by (simp add: Charging12V_def charging_vehicle_def zero_vehicle_def)

text \<open>The claim as stated fails: a car that was charging, with no current, 150 V on the
  line, no quick charge and an SOC of 80, whose charge stale timer is at 1. The tick
  zeroes the line voltage, then ends the charge: the charge state goes from 1 to 21 and
  the substate from 3 to 14, the charge bits of \<open>car_doors1\<close> are cleared, the per-second
  charge timer and the watt-minute remainder are zeroed, and two notifications are
  requested.\<close>

theorem balancing_pause_stale_counterexample:
  "vehicle_mitsubishi_ticker1 km_to_mi
     (charging_vehicle\<lparr>car_linevoltage := 150, mi_stale_charge := 1\<rparr>) =
   Inr (charging_vehicle\<lparr>car_linevoltage := 0, mi_stale_charge := 0, mi_candata_timer := 59,
          car_doors3 := 1, car_time := 1, car_idealrange := 72, car_doors1 := 0,
          car_doors5 := 0, car_chargestate := 21, car_chargesubstate := 14,
          mi_charge_timer := 0, mi_charge_wm := 0,
          net_notifications := [NET_NOTIFY_CHARGE, NET_NOTIFY_STAT]\<rparr>)"
  by (simp add: vehicle_mitsubishi_ticker1_def ticker1_stale_def ticker1_range_def
      ticker1_idealrange_def ticker1_charge_def net_req_notification_def CoolingPump_def
      ChargePort_def Charging12V_def Let_def charging_vehicle_def zero_vehicle_def)

subsection \<open>The battery temperatures\<close>

text \<open>
  Claim C10. Take a frame with identifier \<open>0x6e1\<close>, a car with its 24 temperature
  slots, and \<open>b\<close> the bank number in byte 0 of the frame. When \<open>b\<close> is outside 1..12 the
  slots and the temperature stale timer \<open>car_stale_temps\<close> are as before; when \<open>b\<close> is in
  1..12 the two indices \<open>2b - 2\<close> and \<open>2b - 1\<close> are below 24, these two slots hold bytes
  2 and 3 less 50, and every other slot is as before.
\<close>

theorem battery_temperature_frame:
  assumes "can_id f = 0x6e1" and "length (mi_batttemps s) = 24"
  shows "let d = can_databuffer f; b = unat (d ! 0); s' = vehicle_mitsubishi_poll1 MiFromKm f s in
     (b < 1 \<or> 12 < b \<longrightarrow>
         mi_batttemps s' = mi_batttemps s \<and> car_stale_temps s' = car_stale_temps s) \<and>
     (1 \<le> b \<and> b \<le> 12 \<longrightarrow>
         2 * b - 1 < 24 \<and> length (mi_batttemps s') = 24 \<and>
         mi_batttemps s' ! (2 * b - 2) = d ! 2 - 50 \<and>
         mi_batttemps s' ! (2 * b - 1) = d ! 3 - 50 \<and>
         (\<forall>j < 24. j \<noteq> 2 * b - 2 \<and> j \<noteq> 2 * b - 1 \<longrightarrow> mi_batttemps s' ! j = mi_batttemps s ! j))"
  using assms
  by (auto simp add: vehicle_mitsubishi_poll1_def Let_def nth_list_update)

theorem battery_temperature_frame_witness:
  "can_id (temp_frame 12 70 71) = 0x6e1 \<and> length (mi_batttemps zero_vehicle) = 24 \<and>
   mi_batttemps (vehicle_mitsubishi_poll1 km_to_mi (temp_frame 12 70 71) zero_vehicle) ! 22 = 20 \<and>
   mi_batttemps (vehicle_mitsubishi_poll1 km_to_mi (temp_frame 12 70 71) zero_vehicle) ! 23 = 21 \<and>
   mi_batttemps (vehicle_mitsubishi_poll1 km_to_mi (temp_frame 12 70 71) zero_vehicle) ! 21 = 0 \<and>
   mi_batttemps (vehicle_mitsubishi_poll1 km_to_mi (temp_frame 13 70 71) zero_vehicle) = replicate 24 0 \<and>
   car_stale_temps (vehicle_mitsubishi_poll1 km_to_mi (temp_frame 13 70 71) zero_vehicle) = 0"
  using battery_temperature_frame [of "temp_frame 12 70 71" zero_vehicle km_to_mi]
    battery_temperature_frame [of "temp_frame 13 70 71" zero_vehicle km_to_mi]
  by (simp add: temp_frame_def zero_vehicle_def Let_def)

subsection \<open>Energy accumulation\<close>

text \<open>In a tick of an ongoing charge that brings the per-second timer to 60, the state
  machine runs the per-minute step.\<close>

lemma ticker1_charge_minute:
  assumes "mi_quick_charge s = 1 \<or> (car_chargecurrent s \<noteq> 0 \<and> car_linevoltage s > 100)"
    and "car_doors1 s AND 0x08 \<noteq> 0" and "mi_charge_timer s = 59"
  shows "ticker1_charge s =
     charge_minute (s\<lparr>car_doors5 := car_doors5 s OR Charging12V,
                      car_doors1 := car_doors1 s OR ChargePort, mi_charge_timer := 60\<rparr>)"
  using assms by (simp add: ticker1_charge_def Let_def)

lemma unat_product:
  assumes "unat c * unat v < 65536"
  shows "unat (ucast (ucast (c :: 8 word) * (v :: 16 word) :: 16 word) :: 32 word) = unat c * unat v"
proof -
  have "unat (ucast c * v :: 16 word) = unat c * unat v"
    using assms by (simp add: unat_word_ariths unat_ucast_8_16)
  moreover have "unat (ucast (w :: 16 word) :: 32 word) = unat w" for w
    by (simp add: unsigned_ucast_eq take_bit_nat_eq_self less_trans[OF unsigned_less[of w, simplified]])
  ultimately show ?thesis by simp
qed

lemma charge_minute_energy:
  assumes "mi_quick_charge s = 0"
    and "unat (car_chargecurrent s) * unat (car_linevoltage s) < 65536"
    and "unat (mi_charge_wm s) + unat (car_chargecurrent s) * unat (car_linevoltage s) < 2 ^ 32"
  shows "\<exists>k. car_chargekwh (charge_minute s) = car_chargekwh s + of_nat k \<and>
     60000 * k + unat (mi_charge_wm (charge_minute s)) =
       unat (mi_charge_wm s) + unat (car_chargecurrent s) * unat (car_linevoltage s)"
proof -
  let ?p = "ucast (ucast (car_chargecurrent s) * car_linevoltage s :: 16 word) :: 32 word"
  let ?w = "mi_charge_wm s + ?p"
  have p: "unat ?p = unat (car_chargecurrent s) * unat (car_linevoltage s)"
    using assms(2) by (rule unat_product)
  have w: "unat ?w = unat (mi_charge_wm s) + unat ?p"
    using assms(3) p by (simp add: unat_add_lem [THEN iffD1])
  show ?thesis
  proof (cases "60000 \<le> ?w")
    case True
    then have "60000 \<le> unat ?w" by (simp add: word_le_nat_alt)
    moreover have "unat (?w - 60000) = unat ?w - 60000"
      using True by (simp add: unat_sub)
    ultimately have "60000 * 1 + unat (?w - 60000) = unat (mi_charge_wm s) + unat ?p"
      using w by simp
    with True p assms(1) show ?thesis
      by (intro exI [of _ 1]) (simp add: charge_minute_def Let_def)
  next
    case False
    with w p assms(1) show ?thesis
      by (intro exI [of _ 0]) (simp add: charge_minute_def Let_def)
  qed
qed

lemma charge_minutes_energy:
  assumes "mi_quick_charge s = 0"
    and "\<forall>(c, v) \<in> set samples. unat c * unat v < 65536"
    and "unat (mi_charge_wm s) + watt_minutes samples < 2 ^ 32"
  shows "\<exists>K. car_chargekwh (charge_minutes samples s) = car_chargekwh s + of_nat K \<and>
     60000 * K + unat (mi_charge_wm (charge_minutes samples s)) =
       unat (mi_charge_wm s) + watt_minutes samples"
  using assms
proof (induction samples arbitrary: s)
  case Nil
  then show ?case by (simp add: charge_minutes_def watt_minutes_def)
next
  case (Cons x xs)
  obtain c v where x: "x = (c, v)" by (cases x)
  let ?s0 = "s\<lparr>car_chargecurrent := c, car_linevoltage := v\<rparr>"
  let ?s1 = "charge_minute ?s0"
  from Cons.prems x have pv: "unat c * unat v < 65536" by simp
  from Cons.prems x have tot: "unat (mi_charge_wm s) + (unat c * unat v + watt_minutes xs) < 2 ^ 32"
    by (simp add: watt_minutes_def)
  have "\<exists>k. car_chargekwh ?s1 = car_chargekwh ?s0 + of_nat k \<and>
     60000 * k + unat (mi_charge_wm ?s1) =
       unat (mi_charge_wm ?s0) + unat (car_chargecurrent ?s0) * unat (car_linevoltage ?s0)"
    using Cons.prems(1) pv tot by (intro charge_minute_energy) simp_all
  then obtain k where k: "car_chargekwh ?s1 = car_chargekwh s + of_nat k"
     "60000 * k + unat (mi_charge_wm ?s1) = unat (mi_charge_wm s) + unat c * unat v"
    by auto
  have q: "mi_quick_charge ?s1 = 0" using Cons.prems(1) by (simp add: charge_minute_def Let_def)
  have rest: "\<forall>(c, v) \<in> set xs. unat c * unat v < 65536" using Cons.prems(2) by simp
  have tot': "unat (mi_charge_wm ?s1) + watt_minutes xs < 2 ^ 32" using k(2) tot by arith
  from Cons.IH [OF q rest tot']
  obtain K where K: "car_chargekwh (charge_minutes xs ?s1) = car_chargekwh ?s1 + of_nat K"
    "60000 * K + unat (mi_charge_wm (charge_minutes xs ?s1)) = unat (mi_charge_wm ?s1) + watt_minutes xs"
    by blast
  have unf: "charge_minutes (x # xs) s = charge_minutes xs ?s1"
    by (simp add: charge_minutes_def x)
  have wm: "watt_minutes (x # xs) = unat c * unat v + watt_minutes xs"
    by (simp add: watt_minutes_def x)
  show ?case
    unfolding unf wm using k K
    by (intro exI [of _ "k + K"]) (simp add: algebra_simps)
qed

text \<open>
  Claim C3, as the code has it. \<open>car_chargekwh\<close> is one byte and the product of line 234
  is a 16-bit \<open>unsigned int\<close>. For every sequence of per-minute steps outside quick charge,
  from zeroed accumulators, in which every product current times voltage fits 16 bits (the
  decoder of frame \<open>0x389\<close> delivers a current of at most 25 and a voltage of at most 255)
  and whose sum stays below 256 times 60000 watt-minutes, the reported kWh times 60000
  plus the watt-minute remainder is the sum of the products.
\<close>

theorem energy_conservation:
  assumes "mi_quick_charge s = 0" and "mi_charge_wm s = 0" and "car_chargekwh s = 0"
    and "\<forall>(c, v) \<in> set samples. unat c * unat v < 65536"
    and "watt_minutes samples < 256 * 60000"
  shows "unat (car_chargekwh (charge_minutes samples s)) * 60000 +
         unat (mi_charge_wm (charge_minutes samples s)) = watt_minutes samples"
proof -
  from assms(2,5) have "unat (mi_charge_wm s) + watt_minutes samples < 2 ^ 32" by simp
  from charge_minutes_energy [OF assms(1,4) this] assms(2,3)
  obtain K where K: "car_chargekwh (charge_minutes samples s) = of_nat K"
    "60000 * K + unat (mi_charge_wm (charge_minutes samples s)) = watt_minutes samples"
    by auto
  from K(2) assms(5) have "K < 256" by arith
  then have "unat (of_nat K :: 8 word) = K"
    by (simp add: unat_of_nat)
  with K show ?thesis by simp
qed

theorem energy_conservation_witness:
  "mi_quick_charge zero_vehicle = 0 \<and> mi_charge_wm zero_vehicle = 0 \<and>
   car_chargekwh zero_vehicle = 0 \<and>
   watt_minutes (replicate 10 (25, 255)) = 63750 \<and>
   unat (car_chargekwh (charge_minutes (replicate 10 (25, 255)) zero_vehicle)) * 60000 +
   unat (mi_charge_wm (charge_minutes (replicate 10 (25, 255)) zero_vehicle)) = 63750"
proof -
  have w: "watt_minutes (replicate 10 (25, 255)) = 63750"
    by (simp add: watt_minutes_def sum_list_replicate)
  have z: "mi_quick_charge zero_vehicle = 0" "mi_charge_wm zero_vehicle = 0"
    "car_chargekwh zero_vehicle = 0"
    by (simp_all add: zero_vehicle_def)
  have p: "\<forall>(c, v) \<in> set (replicate 10 (25 :: 8 word, 255 :: 16 word)). unat c * unat v < 65536"
    by simp
  have "watt_minutes (replicate 10 (25, 255)) < 256 * 60000"
    unfolding w by simp
  from energy_conservation [OF z p this] w z show ?thesis
    by simp
qed

text \<open>While every product stays below 60000 the remainder stays below 60000: the single
  carry of lines 235 to 239 is enough.\<close>

lemma charge_minute_remainder:
  assumes "mi_quick_charge s = 0"
    and "unat (car_chargecurrent s) * unat (car_linevoltage s) < 60000"
    and "unat (mi_charge_wm s) < 60000"
  shows "unat (mi_charge_wm (charge_minute s)) < 60000"
proof -
  let ?p = "ucast (ucast (car_chargecurrent s) * car_linevoltage s :: 16 word) :: 32 word"
  let ?w = "mi_charge_wm s + ?p"
  have p: "unat ?p = unat (car_chargecurrent s) * unat (car_linevoltage s)"
    using assms(2) by (intro unat_product) simp
  have w: "unat ?w = unat (mi_charge_wm s) + unat ?p"
    using assms(2,3) p by (simp add: unat_add_lem [THEN iffD1])
  show ?thesis
  proof (cases "60000 \<le> ?w")
    case True
    then have "unat (?w - 60000) = unat ?w - 60000"
      by (simp add: unat_sub)
    with True w p assms show ?thesis
      by (simp add: charge_minute_def Let_def)
  next
    case False
    then have "unat ?w < 60000" by (simp add: word_le_nat_alt)
    with False assms(1) show ?thesis
      by (simp add: charge_minute_def Let_def)
  qed
qed

lemma charge_minutes_remainder:
  assumes "mi_quick_charge s = 0"
    and "\<forall>(c, v) \<in> set samples. unat c * unat v < 60000"
    and "unat (mi_charge_wm s) < 60000"
  shows "unat (mi_charge_wm (charge_minutes samples s)) < 60000"
  using assms
proof (induction samples arbitrary: s)
  case Nil
  then show ?case by (simp add: charge_minutes_def)
next
  case (Cons x xs)
  obtain c v where x: "x = (c, v)" by (cases x)
  let ?s0 = "s\<lparr>car_chargecurrent := c, car_linevoltage := v\<rparr>"
  let ?s1 = "charge_minute ?s0"
  have r: "unat (mi_charge_wm ?s1) < 60000"
    using Cons.prems x by (intro charge_minute_remainder) simp_all
  have q: "mi_quick_charge ?s1 = 0" using Cons.prems(1) by (simp add: charge_minute_def Let_def)
  have rest: "\<forall>(c, v) \<in> set xs. unat c * unat v < 60000" using Cons.prems(2) by simp
  have unf: "charge_minutes (x # xs) s = charge_minutes xs ?s1"
    by (simp add: charge_minutes_def x)
  from Cons.IH [OF q rest r] show ?case unfolding unf .
qed

lemma kwh_wrap:
  assumes "car_chargekwh s' = of_nat K" "60000 * K + unat (mi_charge_wm s') = 15363750"
    "unat (mi_charge_wm s') < 60000"
  shows "unat (car_chargekwh s') * 60000 + unat (mi_charge_wm s') = 3750"
proof -
  have "(60000 * K + unat (mi_charge_wm s')) div 60000 = K"
    using assms(3) by simp
  then have "K = 15363750 div 60000"
    unfolding assms(2) by simp
  then have K: "K = 256" by simp
  with assms(2) have "unat (mi_charge_wm s') = 3750" by simp
  with assms(1) K show ?thesis by simp
qed
text \<open>The claim as stated fails when the one-byte kWh counter wraps: 2410 minutes at 25 A
  and 255 V add up to 15363750 watt-minutes, of which the car reports 0 kWh and a
  remainder of 3750.\<close>

theorem energy_conservation_counterexample:
  "unat (car_chargekwh (charge_minutes (replicate 2410 (25, 255)) zero_vehicle)) * 60000 +
   unat (mi_charge_wm (charge_minutes (replicate 2410 (25, 255)) zero_vehicle)) = 3750 \<and>
   watt_minutes (replicate 2410 (25, 255)) = 15363750"
proof
  define xs where "xs = replicate 2410 (25 :: 8 word, 255 :: 16 word)"
  define s' where "s' = charge_minutes xs zero_vehicle"
  have wm: "watt_minutes xs = 15363750"
    by (simp add: xs_def watt_minutes_def sum_list_replicate)
  have q: "mi_quick_charge zero_vehicle = 0" "mi_charge_wm zero_vehicle = 0"
    "car_chargekwh zero_vehicle = 0"
    by (simp_all add: zero_vehicle_def)
  have small: "\<forall>(c, v) \<in> set xs. unat c * unat v < 60000" by (simp add: xs_def)
  then have small': "\<forall>(c, v) \<in> set xs. unat c * unat v < 65536" by fastforce
  have "unat (mi_charge_wm zero_vehicle) + watt_minutes xs < 2 ^ 32"
    unfolding wm q by simp
  from charge_minutes_energy [OF q(1) small' this]
  obtain K where K: "car_chargekwh s' = of_nat K" "60000 * K + unat (mi_charge_wm s') = 15363750"
    unfolding wm q s'_def by auto
  have "unat (mi_charge_wm zero_vehicle) < 60000" unfolding q by simp
  from charge_minutes_remainder [OF q(1) small this]
  have "unat (mi_charge_wm s') < 60000" unfolding s'_def .
  from kwh_wrap [OF K this]
  show "unat (car_chargekwh (charge_minutes (replicate 2410 (25, 255)) zero_vehicle)) * 60000 +
   unat (mi_charge_wm (charge_minutes (replicate 2410 (25, 255)) zero_vehicle)) = 3750"
    unfolding s'_def xs_def .
  from wm show "watt_minutes (replicate 2410 (25, 255)) = 15363750"
    unfolding xs_def .
qed

subsection \<open>The start of a charge and its first minute\<close>

lemma poll0_charge_frame:
  "vehicle_mitsubishi_poll0 (charge_frame 150 160) s =
     s\<lparr>mi_candata_timer := 60, car_linevoltage := 150, car_chargecurrent := 16,
       mi_stale_charge := 30\<rparr>"
  by (simp add: vehicle_mitsubishi_poll0_def charge_frame_def Let_def)

lemma pilot_bit:
  "(d OR ChargePort) AND 8 = d AND 8"
  "(d OR 0x1C) AND 8 = 8"
  for d :: "8 word"
  by (simp_all add: ChargePort_def word_ao_dist)

lemma charge_timer_step:
  "unat t < 59 \<Longrightarrow> \<not> 60 \<le> t + 1"
  "unat t < 59 \<Longrightarrow> unat (t + 1) = unat t + 1"
  "unat t = 59 \<Longrightarrow> 60 \<le> t + 1"
  for t :: "8 word"
  by (simp_all add: word_le_nat_alt unat_word_ariths)

lemma ticker1_charge_ongoing:
  assumes "car_chargecurrent s \<noteq> 0" "car_linevoltage s > 100" "car_doors1 s AND 0x08 \<noteq> 0"
  shows "car_doors1 (ticker1_charge s) AND 0x08 \<noteq> 0"
    and "car_chargestate (ticker1_charge s) = car_chargestate s"
    and "net_notifications (ticker1_charge s) = net_notifications s"
    and "\<not> 60 \<le> mi_charge_timer s + 1 \<Longrightarrow>
           mi_charge_timer (ticker1_charge s) = mi_charge_timer s + 1 \<and>
           car_chargeduration (ticker1_charge s) = car_chargeduration s"
    and "60 \<le> mi_charge_timer s + 1 \<Longrightarrow>
           mi_charge_timer (ticker1_charge s) = 0 \<and>
           car_chargeduration (ticker1_charge s) = car_chargeduration s + 1"
  using assms
  by (simp_all add: ticker1_charge_def charge_minute_def Let_def pilot_bit)

lemma ticker1_charge_start:
  assumes "car_chargecurrent s \<noteq> 0" "car_linevoltage s > 100" "car_doors1 s AND 0x08 = 0"
  shows "car_doors1 (ticker1_charge s) AND 0x08 \<noteq> 0"
    and "car_chargestate (ticker1_charge s) = 1"
    and "car_chargeduration (ticker1_charge s) = 0"
    and "car_chargekwh (ticker1_charge s) = 0"
    and "mi_charge_timer (ticker1_charge s) = 0"
    and "net_notifications (ticker1_charge s) = net_notifications s @ [NET_NOTIFY_STAT]"
  using assms
  by (simp_all add: ticker1_charge_def net_req_notification_def Let_def pilot_bit)

lemma fed_tick_charging:
  assumes "car_doors1 s AND 0x08 \<noteq> 0" "mi_quick_charge s \<noteq> 1"
  shows "\<exists>s'. vehicle_mitsubishi_ticker1 MiFromKm (vehicle_mitsubishi_poll0 (charge_frame 150 160) s) = Inr s' \<and>
     car_doors1 s' AND 0x08 \<noteq> 0 \<and> mi_quick_charge s' \<noteq> 1 \<and>
     car_chargestate s' = car_chargestate s \<and> net_notifications s' = net_notifications s \<and>
     (\<not> 60 \<le> mi_charge_timer s + 1 \<longrightarrow>
           mi_charge_timer s' = mi_charge_timer s + 1 \<and> car_chargeduration s' = car_chargeduration s) \<and>
     (60 \<le> mi_charge_timer s + 1 \<longrightarrow>
           mi_charge_timer s' = 0 \<and> car_chargeduration s' = car_chargeduration s + 1)"
proof -
  define s0 where "s0 = vehicle_mitsubishi_poll0 (charge_frame 150 160) s"
  have s0: "mi_stale_charge s0 \<noteq> 1" "car_linevoltage s0 = 150" "car_chargecurrent s0 = 16"
    "mi_quick_charge s0 = mi_quick_charge s" "car_doors1 s0 = car_doors1 s"
    "mi_charge_timer s0 = mi_charge_timer s" "car_chargeduration s0 = car_chargeduration s"
    "car_chargestate s0 = car_chargestate s" "net_notifications s0 = net_notifications s"
    by (simp_all add: s0_def poll0_charge_frame)
  let ?s1 = "ticker1_stale s0"
  note sig = ticker1_stale_charge_signal(4-6) [OF s0(1)]
  have q1: "mi_quick_charge ?s1 \<noteq> 1" using assms(2) by (simp add: sig s0)
  from ticker1_range_not_qc [OF q1]
  obtain s2 where r: "ticker1_range MiFromKm ?s1 = Inr s2" ..
  note k2 = ticker1_range_keeps [OF r]
  let ?s3 = "ticker1_idealrange s2"
  have in3: "car_chargecurrent ?s3 \<noteq> 0" "car_linevoltage ?s3 > 100" "car_doors1 ?s3 AND 0x08 \<noteq> 0"
    using assms(1)
    by (simp_all add: ticker1_idealrange_keeps k2 sig ticker1_stale_keeps s0)
  note c = ticker1_charge_ongoing [OF in3]
  have same: "mi_charge_timer ?s3 = mi_charge_timer s" "car_chargeduration ?s3 = car_chargeduration s"
    "car_chargestate ?s3 = car_chargestate s" "net_notifications ?s3 = net_notifications s"
    "mi_quick_charge ?s3 = mi_quick_charge s"
    by (simp_all add: ticker1_idealrange_keeps k2 sig ticker1_stale_keeps s0)
  have "vehicle_mitsubishi_ticker1 MiFromKm s0 = Inr (ticker1_charge ?s3)"
    by (simp add: vehicle_mitsubishi_ticker1_def r)
  then show ?thesis
    unfolding s0_def [symmetric]
    using c assms(2) by (simp add: same ticker1_charge_keeps)
qed

lemma fed_ticks_minute:
  assumes "car_doors1 s AND 0x08 \<noteq> 0" "mi_quick_charge s \<noteq> 1"
    and "unat (mi_charge_timer s) + n = 60" and "0 < n"
  shows "\<exists>s'. fed_ticks MiFromKm (charge_frame 150 160) n s = Inr s' \<and>
     car_chargestate s' = car_chargestate s \<and> net_notifications s' = net_notifications s \<and>
     car_chargeduration s' = car_chargeduration s + 1"
  using assms
proof (induction n arbitrary: s)
  case 0
  then show ?case by simp
next
  case (Suc n)
  show ?case
  proof (cases "n = 0")
    case True
    with Suc.prems(3) have t: "unat (mi_charge_timer s) = 59" by simp
    from fed_tick_charging [OF Suc.prems(1,2), of MiFromKm] charge_timer_step(3) [OF t]
    obtain s1 where "vehicle_mitsubishi_ticker1 MiFromKm
        (vehicle_mitsubishi_poll0 (charge_frame 150 160) s) = Inr s1"
      "car_chargestate s1 = car_chargestate s" "net_notifications s1 = net_notifications s"
      "car_chargeduration s1 = car_chargeduration s + 1"
      by auto
    with True show ?thesis by simp
  next
    case False
    with Suc.prems(3) have t: "unat (mi_charge_timer s) < 59" by simp
    from fed_tick_charging [OF Suc.prems(1,2), of MiFromKm] charge_timer_step(1,2) [OF t]
    obtain s1 where s1: "vehicle_mitsubishi_ticker1 MiFromKm
        (vehicle_mitsubishi_poll0 (charge_frame 150 160) s) = Inr s1"
      "car_doors1 s1 AND 0x08 \<noteq> 0" "mi_quick_charge s1 \<noteq> 1"
      "car_chargestate s1 = car_chargestate s" "net_notifications s1 = net_notifications s"
      "unat (mi_charge_timer s1) = unat (mi_charge_timer s) + 1"
      "car_chargeduration s1 = car_chargeduration s"
      by auto
    from Suc.prems(3) s1(6) have a: "unat (mi_charge_timer s1) + n = 60" by simp
    from False have b: "0 < n" by simp
    from Suc.IH [OF s1(2,3) a b] s1 show ?thesis by auto
  qed
qed

text \<open>
  Claim C4. From a car that is not marked as charging (pilot bit \<open>0x08\<close> of \<open>car_doors1\<close>
  clear), with 150 V, 16 A, no quick charge and a charge signal that is fresh (the stale
  timer is not on its last second), whatever the SOC: one tick returns with the charge
  state 1 (charging), a duration of 0, 0 kWh and exactly one more notification, the status
  notification. Sixty further seconds, each with the frame \<open>0x389\<close> carrying 150 V and
  16.0 A before its tick (which keeps the stale timer fresh), return with the charge state
  still 1, a duration of 1 and no further notification.
\<close>

theorem charge_start_and_first_minute:
  assumes "car_doors1 s AND 0x08 = 0" and "car_linevoltage s = 150" and "car_chargecurrent s = 16"
    and "mi_quick_charge s \<noteq> 1" and "mi_stale_charge s \<noteq> 1"
  shows "\<exists>s1 s61. vehicle_mitsubishi_ticker1 MiFromKm s = Inr s1 \<and>
     car_chargestate s1 = 1 \<and> car_chargeduration s1 = 0 \<and> car_chargekwh s1 = 0 \<and>
     net_notifications s1 = net_notifications s @ [NET_NOTIFY_STAT] \<and>
     fed_ticks MiFromKm (charge_frame 150 160) 60 s1 = Inr s61 \<and>
     car_chargestate s61 = 1 \<and> car_chargeduration s61 = 1 \<and>
     net_notifications s61 = net_notifications s1"
proof -
  let ?s1 = "ticker1_stale s"
  note sig = ticker1_stale_charge_signal(4-6) [OF assms(5)]
  have q1: "mi_quick_charge ?s1 \<noteq> 1" using assms(4) by (simp add: sig)
  from ticker1_range_not_qc [OF q1]
  obtain s2 where r: "ticker1_range MiFromKm ?s1 = Inr s2" ..
  note k2 = ticker1_range_keeps [OF r]
  let ?s3 = "ticker1_idealrange s2"
  have in3: "car_chargecurrent ?s3 \<noteq> 0" "car_linevoltage ?s3 > 100" "car_doors1 ?s3 AND 0x08 = 0"
    using assms(1-3)
    by (simp_all add: ticker1_idealrange_keeps k2 sig ticker1_stale_keeps)
  note c = ticker1_charge_start [OF in3]
  define t1 where "t1 = ticker1_charge ?s3"
  have t1: "vehicle_mitsubishi_ticker1 MiFromKm s = Inr t1"
    by (simp add: vehicle_mitsubishi_ticker1_def r t1_def)
  have n3: "net_notifications ?s3 = net_notifications s" "mi_quick_charge ?s3 = mi_quick_charge s"
    by (simp_all add: ticker1_idealrange_keeps k2 sig ticker1_stale_keeps)
  have first: "car_doors1 t1 AND 0x08 \<noteq> 0" "car_chargestate t1 = 1" "car_chargeduration t1 = 0"
    "car_chargekwh t1 = 0" "mi_charge_timer t1 = 0"
    "net_notifications t1 = net_notifications s @ [NET_NOTIFY_STAT]" "mi_quick_charge t1 \<noteq> 1"
    using c assms(4) by (simp_all add: t1_def n3 ticker1_charge_keeps)
  have "unat (mi_charge_timer t1) + 60 = 60" by (simp add: first)
  from fed_ticks_minute [OF first(1,7) this, of MiFromKm]
  obtain t61 where "fed_ticks MiFromKm (charge_frame 150 160) 60 t1 = Inr t61"
     "car_chargestate t61 = 1" "net_notifications t61 = net_notifications t1"
     "car_chargeduration t61 = 1"
    using first by auto
  with t1 first show ?thesis by auto
qed

theorem charge_start_and_first_minute_witness:
  "car_doors1 plugged_vehicle AND 0x08 = 0 \<and> car_linevoltage plugged_vehicle = 150 \<and>
   car_chargecurrent plugged_vehicle = 16 \<and> car_SOC plugged_vehicle = 50 \<and>
   mi_quick_charge plugged_vehicle \<noteq> 1 \<and> mi_stale_charge plugged_vehicle \<noteq> 1 \<and>
   (\<exists>s1 s61. vehicle_mitsubishi_ticker1 km_to_mi plugged_vehicle = Inr s1 \<and>
     car_chargestate s1 = 1 \<and> car_chargeduration s1 = 0 \<and> car_chargekwh s1 = 0 \<and>
     net_notifications s1 = [NET_NOTIFY_STAT] \<and>
     fed_ticks km_to_mi (charge_frame 150 160) 60 s1 = Inr s61 \<and>
     car_chargestate s61 = 1 \<and> car_chargeduration s61 = 1 \<and>
     net_notifications s61 = net_notifications s1)"
  using charge_start_and_first_minute [of plugged_vehicle km_to_mi]
  by (simp add: plugged_vehicle_def zero_vehicle_def)

subsection \<open>The range estimate while quick charging\<close>

text \<open>What the quick-charge branch publishes: 0 up to an SOC of 10, above it the anchor's
  range times (SOC - 10) over the anchor's SOC less 10, on 16 bits, with the anchor that
  line 149 has left.\<close>

lemma quick_charge_range:
  assumes "mi_quick_charge s = 1"
  shows "car_SOC s \<le> 10 \<Longrightarrow> \<exists>s'. ticker1_range MiFromKm s = Inr s' \<and> car_estrange s' = 0"
    and "10 < car_SOC s \<Longrightarrow> ticker1_range MiFromKm s = Inr s' \<Longrightarrow>
           car_estrange s' =
             ucast (mi_last_good_range s') * (ucast (car_SOC s) - 10) div
               (ucast (mi_last_good_SOC s') - 10) \<and>
           (mi_last_good_SOC s', mi_last_good_range s') =
             (if car_SOC s < 20 then (20, 8) else (mi_last_good_SOC s, mi_last_good_range s))"
  using assms
  by (auto simp add: ticker1_range_def Let_def split: if_splits)

text \<open>
  Claim C6 fails on the code. The comment of lines 146 to 148 and the claim replace the
  anchor when the last known good SOC is too low; line 149 tests the current SOC
  \<open>car_SOC\<close> instead. First run: quick charging at an SOC of 15 with the good anchor
  (80, 100): the code overwrites the anchor with (20, 8) and publishes 8 * 5 / 10 = 4,
  where the claim keeps the anchor and publishes 100 * 5 / 70 = 7. Second run: quick
  charging at an SOC of 50 with an anchor that was never set (0, 0): the code keeps the
  anchor and publishes 0 * 40 / 65526 = 0 (the divisor is 0 - 10 on 16 bits), where the
  claim takes the fallback (20, 8) and publishes 8 * 40 / 10 = 32.
\<close>

theorem quick_charge_fallback_tests_current_SOC:
  "vehicle_mitsubishi_ticker1 km_to_mi (quick_charging_vehicle\<lparr>car_SOC := 15\<rparr>) =
     Inr (quick_charging_vehicle\<lparr>car_SOC := 15, mi_last_good_SOC := 20, mi_last_good_range := 8,
            car_estrange := 4, car_idealrange := 5, mi_stale_charge := 29,
            mi_candata_timer := 59, car_doors3 := 1, car_time := 1, mi_charge_timer := 8\<rparr>) \<and>
   vehicle_mitsubishi_ticker1 km_to_mi
       (quick_charging_vehicle\<lparr>car_SOC := 50, mi_last_good_SOC := 0, mi_last_good_range := 0\<rparr>) =
     Inr (quick_charging_vehicle\<lparr>car_SOC := 50, mi_last_good_SOC := 0, mi_last_good_range := 0,
            car_estrange := 0, car_idealrange := 41, mi_stale_charge := 29,
            mi_candata_timer := 59, car_doors3 := 1, car_time := 1, mi_charge_timer := 8\<rparr>)"
  by (simp add: vehicle_mitsubishi_ticker1_def ticker1_stale_def ticker1_range_def
      ticker1_idealrange_def ticker1_charge_def CoolingPump_def ChargePort_def Charging12V_def Let_def
      quick_charging_vehicle_def charging_vehicle_def zero_vehicle_def)

subsection \<open>Writes of the last good anchor\<close>




subsection \<open>Initialisation\<close>

lemma wait_configuration_returns:
  "opmode2 (n + k) \<Longrightarrow> \<exists>m. wait_configuration opmode2 n = Some m"
proof (induction k arbitrary: n)
  case 0
  then show ?case by (subst wait_configuration.simps) simp
next
  case (Suc k)
  then have "opmode2 (Suc n + k)" by simp
  from Suc.IH [OF this] show ?case
    by (subst wait_configuration.simps) simp
qed

lemma clear_batttemps:
  "n \<le> length b \<Longrightarrow> fold (\<lambda>i b. b[i := 0]) [0..<n] b = replicate n 0 @ drop n b"
proof (induction n)
  case 0
  then show ?case by simp
next
  case (Suc n)
  then have n: "n < length b" by simp
  have "(replicate n 0 @ drop n b)[n := 0] = replicate n 0 @ (drop n b)[0 := 0]"
    by (simp add: list_update_append)
  also have "(drop n b)[0 := 0] = 0 # drop (Suc n) b"
    using n by (simp add: Cons_nth_drop_Suc [symmetric])
  also have "replicate n 0 @ (0 # drop (Suc n) b) = replicate (Suc n) 0 @ drop (Suc n) b"
    by (simp add: replicate_app_Cons_same)
  finally show ?case using Suc by simp
qed

text \<open>
  Claim C8, as the code has it. When the CAN controller reaches configuration mode at
  some read, the initialisation returns, and then the bus-activity timer, the charge
  stale timer, the quick-charge flag and the raw range reading are 0, the quick-charge
  filter counter is at its ceiling 3 and all 24 battery temperature slots are 0. The
  per-second charge timer and the watt-minute accumulator are not touched (the ticker
  resets them when a charge starts).
\<close>

theorem initialise_resets:
  assumes "opmode2 k" and "length (mi_batttemps s) = 24"
  shows "\<exists>s'. vehicle_mitsubishi_initialise opmode2 s = Some s' \<and>
     mi_candata_timer s' = 0 \<and> mi_stale_charge s' = 0 \<and> mi_quick_charge s' = 0 \<and>
     mi_estrange s' = 0 \<and> mi_qc_counter s' = 3 \<and> mi_batttemps s' = replicate 24 0 \<and>
     mi_charge_timer s' = mi_charge_timer s \<and> mi_charge_wm s' = mi_charge_wm s"
proof -
  from assms(1) have "opmode2 (0 + k)" by simp
  from wait_configuration_returns [of opmode2 0 k, OF this]
  obtain m where m: "wait_configuration opmode2 0 = Some m" ..
  from assms(2) have "fold (\<lambda>i b. b[i := 0]) [0..<24] (mi_batttemps s) = replicate 24 0"
    using clear_batttemps [of 24 "mi_batttemps s"] by simp
  then show ?thesis
    by (simp add: vehicle_mitsubishi_initialise_def m Let_def)
qed

theorem initialise_resets_witness:
  "length (mi_batttemps (vehicle_mitsubishi_poll1 km_to_mi (temp_frame 1 70 71) charging_vehicle)) = 24 \<and>
   (\<exists>s'. vehicle_mitsubishi_initialise (ready_after 2)
           (vehicle_mitsubishi_poll1 km_to_mi (temp_frame 1 70 71) charging_vehicle) = Some s' \<and>
     mi_candata_timer s' = 0 \<and> mi_stale_charge s' = 0 \<and> mi_quick_charge s' = 0 \<and>
     mi_estrange s' = 0 \<and> mi_qc_counter s' = 3 \<and> mi_batttemps s' = replicate 24 0 \<and>
     mi_charge_timer s' = 7 \<and> mi_charge_wm s' = 500)"
  using initialise_resets [of "ready_after 2" 2
      "vehicle_mitsubishi_poll1 km_to_mi (temp_frame 1 70 71) charging_vehicle"]
  by (simp add: vehicle_mitsubishi_poll1_def temp_frame_def charging_vehicle_def zero_vehicle_def
      ready_after_def Let_def)

text \<open>The claim as stated fails: the initialisation leaves the per-second charge timer,
  the watt-minute accumulator and the last good anchor as it finds them.\<close>

theorem initialise_keeps_counterexample:
  "map_option mi_charge_timer (vehicle_mitsubishi_initialise (ready_after 0) charging_vehicle) = Some 7 \<and>
   map_option mi_charge_wm (vehicle_mitsubishi_initialise (ready_after 0) charging_vehicle) = Some 500 \<and>
   map_option mi_last_good_SOC (vehicle_mitsubishi_initialise (ready_after 0) quick_charging_vehicle) = Some 80 \<and>
   map_option mi_last_good_range (vehicle_mitsubishi_initialise (ready_after 0) quick_charging_vehicle) = Some 100"
proof -
  have "wait_configuration (ready_after 0) 0 = Some 0"
    by (subst wait_configuration.simps) (simp add: ready_after_def)
  then show ?thesis
    by (simp add: vehicle_mitsubishi_initialise_def Let_def quick_charging_vehicle_def
        charging_vehicle_def zero_vehicle_def)
qed

end
